theory Spec2Isabelle
  imports Complex_Main
begin

section \<open>FFDNet driver (Super_resolution/ffdnet.py): data model\<close>

text \<open>
  The script is orchestration code around an external network (\<open>model.FFDNet\<close>), an
  external helper module (\<open>utils\<close>), OpenCV, NumPy and PyTorch. The external parts are
  parameters of the model (the record \<open>env\<close> below); the control flow, the paths, the
  noise lists, the padding and every raise of the script itself are translated from the
  source. Python floats are modelled by the reals they denote. Device transfers
  (\<open>.to(device)\<close>, \<open>.cuda()\<close>, \<open>.cpu()\<close>) do not change a value; they are left out,
  as are the \<open>print\<close> calls and the timing of the progress log.
\<close>

datatype error =
    AssertionError      \<comment> \<open>the \<open>assert\<close> of \<open>main\<close>\<close>
  | ValueError          \<comment> \<open>\<open>range\<close> with step 0; \<open>np.vstack\<close> of an empty list\<close>
  | ZeroDivisionError   \<comment> \<open>\<open>train_losses /= loss_idx\<close> with \<open>loss_idx = 0\<close>\<close>
  | StopIteration       \<comment> \<open>\<open>next(os.walk(dir))\<close> on a directory that does not exist\<close>
  | AttributeError      \<comment> \<open>\<open>image.T\<close> when \<open>cv2.imread\<close> returned \<open>None\<close> (gray)\<close>
  | Cv2Error            \<comment> \<open>\<open>cv2.cvtColor\<close> when \<open>cv2.imread\<close> returned \<open>None\<close> (colour)\<close>
  | OSError             \<comment> \<open>\<open>torch.load\<close> or \<open>os.listdir\<close> on a missing path\<close>
  | Exception string    \<comment> \<open>the explicit \<open>raise Exception(...)\<close> of \<open>test\<close>\<close>

text \<open>An image is a channel-first array \<open>C * W * H\<close>; a batch is a list of images.\<close>

type_synonym image = "real list list list"
type_synonym batch = "image list"

text \<open>
  The parsed command line. \<open>nargs=3\<close> makes each noise interval a list of exactly three
  integers, \<open>[low, high, step]\<close>; it is a triple here.
\<close>

type_synonym interval = "int \<times> int \<times> int"

record args =
  train_path :: string
  is_gray :: bool
  patch_size :: int
  train_noise_interval :: interval
  val_noise_interval :: interval
  batch_size :: int
  epoches :: int
  val_epoch :: int
  learning_rate :: real
  save_checkpoints :: int
  test_path :: string
  noise_sigma :: real
  add_noise :: bool
  model_path :: string
  use_gpu :: bool
  is_train :: bool
  is_test :: bool

text \<open>The defaults of the argument parser (lines 280 to 300).\<close>

definition default_args :: args where
  "default_args =
     \<lparr> train_path = ''./train_data/'', is_gray = False, patch_size = 32,
       train_noise_interval = (0, 75, 15), val_noise_interval = (0, 60, 30),
       batch_size = 256, epoches = 80, val_epoch = 5, learning_rate = 1 / 1000,
       save_checkpoints = 5, test_path = ''./test_data/color.png'', noise_sigma = 25,
       add_noise = False, model_path = ''./models/'', use_gpu = False,
       is_train = False, is_test = False \<rparr>"

section \<open>Noise lists\<close>

text \<open>
  Python's \<open>range(start, stop, step)\<close> on integers: ascending for a positive step,
  descending for a negative one, \<open>ValueError\<close> for step 0.
\<close>

function range_up :: "int \<Rightarrow> int \<Rightarrow> int \<Rightarrow> int list" where
  "range_up i stop step =
     (if 0 < step \<and> i < stop then i # range_up (i + step) stop step else [])"
  by pat_completeness auto
termination
  by (relation "measure (\<lambda>(i, stop, step). nat (stop - i))") auto

function range_down :: "int \<Rightarrow> int \<Rightarrow> int \<Rightarrow> int list" where
  "range_down i stop step =
     (if step < 0 \<and> stop < i then i # range_down (i + step) stop step else [])"
  by pat_completeness auto
termination
  by (relation "measure (\<lambda>(i, stop, step). nat (i - stop))") auto

declare range_up.simps [simp del] range_down.simps [simp del]

definition py_range :: "int \<Rightarrow> int \<Rightarrow> int \<Rightarrow> error + int list" where
  "py_range start stop step =
     (if step = 0 then Inl ValueError
      else if 0 < step then Inr (range_up start stop step)
      else Inr (range_down start stop step))"

text \<open>Lines 88 and 89: \<open>list(range(noises[0], noises[1], noises[2]))\<close>.\<close>

definition noise_list :: "interval \<Rightarrow> error + int list" where
  "noise_list iv = (case iv of (lo, hi, st) \<Rightarrow> py_range lo hi st)"

text \<open>
  Lines 312 to 314 of \<open>main\<close>: the test sigma is divided by 255 and the upper bound of
  both intervals is incremented.
\<close>

definition bump_high :: "interval \<Rightarrow> interval" where
  "bump_high iv = (case iv of (lo, hi, st) \<Rightarrow> (lo, hi + 1, st))"

definition normalize_args :: "args \<Rightarrow> args" where
  "normalize_args a =
     a\<lparr> noise_sigma := noise_sigma a / 255,
        train_noise_interval := bump_high (train_noise_interval a),
        val_noise_interval := bump_high (val_noise_interval a) \<rparr>"

text \<open>The noise levels \<open>train\<close> enumerates for a command line, as \<open>main\<close> passes it on.\<close>

definition train_noises_of :: "args \<Rightarrow> error + int list" where
  "train_noises_of a = noise_list (train_noise_interval (normalize_args a))"

text \<open>Lines 116 and 171: \<open>noise_sigma = int_noise_sigma / 255\<close> (true division).\<close>

definition level_sigma :: "int \<Rightarrow> real" where
  "level_sigma int_noise_sigma = real_of_int int_noise_sigma / 255"

section \<open>The external parts\<close>

text \<open>
  The file system, OpenCV, \<open>utils\<close>, the data loader and the network are not code of
  this script. \<open>decode p g\<close> is the normalised \<open>C * W * H\<close> array that \<open>read_image\<close>
  builds from the file \<open>p\<close> (\<open>None\<close> when \<open>cv2.imread\<close> returns \<open>None\<close>);
  \<open>data_loader ds n shuffle e\<close> is the list of batches the loader yields in epoch \<open>e\<close>;
  \<open>opt_step lr p b s\<close> is the parameter state after one noisy forward pass, the loss,
  \<open>backward\<close> and \<open>optimizer.step\<close> on batch \<open>b\<close> at sigma \<open>s\<close>. The random draws
  (initial weights, shuffling, noise) are hidden in these functions. Constructing the
  loader, the network and the optimizer, and loading a state dict that was found, are
  taken to succeed.
\<close>

record 'p env =
  walk_files :: "string \<Rightarrow> string list option"
  listdir :: "string \<Rightarrow> string list option"
  decode :: "string \<Rightarrow> bool \<Rightarrow> image option"
  image_to_patches :: "image \<Rightarrow> int \<Rightarrow> image list"
  data_loader :: "image list \<Rightarrow> int \<Rightarrow> bool \<Rightarrow> nat \<Rightarrow> batch list"
  init_params :: "bool \<Rightarrow> 'p"
  opt_step :: "real \<Rightarrow> 'p \<Rightarrow> batch \<Rightarrow> real \<Rightarrow> 'p"
  forward :: "'p \<Rightarrow> batch \<Rightarrow> real list \<Rightarrow> batch"
  add_batch_noise :: "batch \<Rightarrow> real \<Rightarrow> batch"

text \<open>
  What the script does to the outside is recorded as a trace of events, in order. The
  network object is its parameters and its \<open>training\<close> flag (\<open>model.train()\<close> sets it,
  \<open>model.eval()\<close> clears it); the world is the checkpoint files, PyTorch's global
  gradient mode (on unless inside \<open>torch.no_grad()\<close>) and the trace.
\<close>

datatype 'p event =
    Train_mode                             \<comment> \<open>\<open>model.train()\<close>\<close>
  | Eval_mode                              \<comment> \<open>\<open>model.eval()\<close>\<close>
  | Train_step nat nat int real            \<comment> \<open>epoch, batch, level, sigma: forward, backward, step\<close>
  | Val_forward nat nat int real bool bool \<comment> \<open>epoch, batch, level, sigma, training flag, gradient mode\<close>
  | Save string 'p                         \<comment> \<open>\<open>torch.save(model.state_dict(), path)\<close>\<close>
  | Load string                            \<comment> \<open>\<open>torch.load(path)\<close>\<close>
  | Test_forward string real bool bool     \<comment> \<open>file name, sigma, training flag, gradient mode\<close>
  | Imwrite string batch                   \<comment> \<open>\<open>cv2.imwrite(path, ...)\<close>\<close>

record 'p net =
  params :: 'p
  training :: bool

record 'p world =
  store :: "string \<Rightarrow> 'p option"
  grad_enabled :: bool
  trace :: "'p event list"

definition emit :: "'p event list \<Rightarrow> 'p world \<Rightarrow> 'p world" where
  "emit es w = w\<lparr>trace := trace w @ es\<rparr>"

definition torch_save :: "string \<Rightarrow> 'p net \<Rightarrow> 'p world \<Rightarrow> 'p world" where
  "torch_save path m w =
     emit [Save path (params m)] (w\<lparr>store := (store w)(path \<mapsto> params m)\<rparr>)"

section \<open>Loading images and cutting patches\<close>

definition read_image :: "'p env \<Rightarrow> string \<Rightarrow> bool \<Rightarrow> error + image" where
  "read_image env image_path gray =
     (case decode env image_path gray of
        None \<Rightarrow> Inl (if gray then AttributeError else Cv2Error)
      | Some img \<Rightarrow> Inr img)"

fun read_all :: "'p env \<Rightarrow> string \<Rightarrow> bool \<Rightarrow> string list \<Rightarrow> error + image list" where
  "read_all env image_dir gray [] = Inr []"
| "read_all env image_dir gray (fn # fns) =
     (case read_image env (image_dir @ fn) gray of
        Inl e \<Rightarrow> Inl e
      | Inr img \<Rightarrow>
          (case read_all env image_dir gray fns of
             Inl e \<Rightarrow> Inl e
           | Inr images \<Rightarrow> Inr (img # images)))"

definition load_images :: "'p env \<Rightarrow> bool \<Rightarrow> bool \<Rightarrow> string \<Rightarrow> error + image list" where
  "load_images env for_train gray base_path =
     (let train_dir = (if gray then ''gray/train/'' else ''rgb/train/'');
          val_dir = (if gray then ''gray/val/'' else ''rgb/val/'');
          image_dir =
            filter (\<lambda>c. c \<noteq> CHR 0x22) (filter (\<lambda>c. c \<noteq> CHR 0x27) base_path)
              @ (if for_train then train_dir else val_dir)
      in case walk_files env image_dir of
           None \<Rightarrow> Inl StopIteration
         | Some fns \<Rightarrow> read_all env image_dir gray fns)"

text \<open>
  \<open>np.vstack\<close> of a list of patch arrays \<open>n_i * C * P * P\<close> concatenates them along the
  first axis; NumPy raises \<open>ValueError\<close> on an empty list.
\<close>

definition np_vstack :: "'a list list \<Rightarrow> error + 'a list" where
  "np_vstack arrays = (if arrays = [] then Inl ValueError else Inr (concat arrays))"

definition collect_patches :: "'p env \<Rightarrow> int \<Rightarrow> image list \<Rightarrow> image list list" where
  "collect_patches env psize images =
     fold (\<lambda>img patches_list.
             let patches = image_to_patches env img psize
             in if length patches \<noteq> 0 then patches_list @ [patches] else patches_list)
          images []"

definition images_to_patches :: "'p env \<Rightarrow> image list \<Rightarrow> int \<Rightarrow> error + image list" where
  "images_to_patches env images psize = np_vstack (collect_patches env psize images)"

section \<open>Training\<close>

text \<open>
  The body of the innermost training loop (lines 115 to 133): the level is scaled, the
  batch goes through the network at that sigma and the optimizer updates the parameters.
  \<open>loss_idx\<close> counts the iterations.
\<close>

definition train_noise_step ::
  "'p env \<Rightarrow> args \<Rightarrow> nat \<Rightarrow> nat \<Rightarrow> batch \<Rightarrow> int \<Rightarrow>
   'p net \<times> 'p world \<times> nat \<Rightarrow> 'p net \<times> 'p world \<times> nat" where
  "train_noise_step env a epoch_idx batch_idx batch_data int_noise_sigma s =
     (case s of (m, w, loss_idx) \<Rightarrow>
        (m\<lparr>params := opt_step env (learning_rate a) (params m) batch_data
                        (level_sigma int_noise_sigma)\<rparr>,
         emit [Train_step epoch_idx batch_idx int_noise_sigma (level_sigma int_noise_sigma)] w,
         loss_idx + 1))"

definition train_batches ::
  "'p env \<Rightarrow> args \<Rightarrow> nat \<Rightarrow> int list \<Rightarrow> batch list \<Rightarrow>
   'p net \<times> 'p world \<times> nat \<Rightarrow> 'p net \<times> 'p world \<times> nat" where
  "train_batches env a epoch_idx train_noises train_dataloader =
     fold (\<lambda>(batch_idx, batch_data).
             fold (train_noise_step env a epoch_idx batch_idx batch_data) train_noises)
          (enumerate 0 train_dataloader)"

text \<open>
  The body of the innermost validation loop (lines 170 to 200): a forward pass and the
  loss, with no call of the optimizer, so the step takes the network and gives back
  only the world. The event records the mode the network and PyTorch are in at that
  moment. What a layer with training-only behaviour does to its own statistics during
  a forward pass in training mode is inside the external network and not modelled.
\<close>

definition val_noise_step ::
  "'p net \<Rightarrow> nat \<Rightarrow> nat \<Rightarrow> int \<Rightarrow> 'p world \<times> nat \<Rightarrow> 'p world \<times> nat" where
  "val_noise_step m epoch_idx batch_idx int_noise_sigma s =
     (case s of (w, loss_idx) \<Rightarrow>
        (emit [Val_forward epoch_idx batch_idx int_noise_sigma (level_sigma int_noise_sigma)
                 (training m) (grad_enabled w)] w,
         loss_idx + 1))"

definition val_batches ::
  "'p net \<Rightarrow> nat \<Rightarrow> int list \<Rightarrow> batch list \<Rightarrow> 'p world \<times> nat \<Rightarrow> 'p world \<times> nat" where
  "val_batches m epoch_idx val_noises val_dataloader =
     fold (\<lambda>(batch_idx, batch_data). fold (val_noise_step m epoch_idx batch_idx) val_noises)
          (enumerate 0 val_dataloader)"

text \<open>Line 159: the test that lets an epoch go on to the checkpoint and the validation.\<close>

definition is_val_epoch :: "nat \<Rightarrow> bool" where
  "is_val_epoch epoch_idx = ((epoch_idx + 1) mod 5 = 0)"

text \<open>
  One epoch (lines 107 to 203). The averages divide by \<open>loss_idx\<close>, which is 0 when the
  loop before them did not iterate.
\<close>

definition run_epoch ::
  "'p env \<Rightarrow> args \<Rightarrow> image list \<Rightarrow> image list \<Rightarrow> int list \<Rightarrow> int list \<Rightarrow> nat \<Rightarrow>
   'p net \<times> 'p world \<Rightarrow> error option \<times> 'p net \<times> 'p world" where
  "run_epoch env a train_dataset val_dataset train_noises val_noises epoch_idx s =
     (case s of (m0, w0) \<Rightarrow>
        (case train_batches env a epoch_idx train_noises
                (data_loader env train_dataset (batch_size a) True epoch_idx)
                (m0\<lparr>training := True\<rparr>, emit [Train_mode] w0, 0) of
           (m, w, loss_idx) \<Rightarrow>
             if loss_idx = 0 then (Some ZeroDivisionError, m, w)
             else if is_val_epoch epoch_idx then
               (case val_batches m epoch_idx val_noises
                       (data_loader env val_dataset (batch_size a) False epoch_idx)
                       (torch_save
                          (model_path a @ (if is_gray a then ''net_gray.pth'' else ''net_rgb.pth''))
                          m w, 0) of
                  (w', val_idx) \<Rightarrow>
                    if val_idx = 0 then (Some ZeroDivisionError, m, w') else (None, m, w'))
             else (None, m, w)))"

fun epoch_loop ::
  "'p env \<Rightarrow> args \<Rightarrow> image list \<Rightarrow> image list \<Rightarrow> int list \<Rightarrow> int list \<Rightarrow> nat list \<Rightarrow>
   'p net \<times> 'p world \<Rightarrow> error option \<times> 'p net \<times> 'p world" where
  "epoch_loop env a tds vds tns vns [] s = (None, s)"
| "epoch_loop env a tds vds tns vns (epoch_idx # rest) s =
     (case run_epoch env a tds vds tns vns epoch_idx s of
        (Some e, s') \<Rightarrow> (Some e, s')
      | (None, s') \<Rightarrow> epoch_loop env a tds vds tns vns rest s')"

text \<open>Lines 66 to 91: the data sets and the two noise lists, with every raise on the way.\<close>

definition train_setup ::
  "'p env \<Rightarrow> args \<Rightarrow> error + (image list \<times> image list \<times> int list \<times> int list)" where
  "train_setup env a =
     (case load_images env True (is_gray a) (train_path a) of
        Inl e \<Rightarrow> Inl e
      | Inr train_images \<Rightarrow>
     (case load_images env False (is_gray a) (train_path a) of
        Inl e \<Rightarrow> Inl e
      | Inr val_images \<Rightarrow>
     (case images_to_patches env train_images (patch_size a) of
        Inl e \<Rightarrow> Inl e
      | Inr train_dataset \<Rightarrow>
     (case images_to_patches env val_images (patch_size a) of
        Inl e \<Rightarrow> Inl e
      | Inr val_dataset \<Rightarrow>
     (case noise_list (train_noise_interval a) of
        Inl e \<Rightarrow> Inl e
      | Inr train_noises \<Rightarrow>
     (case noise_list (val_noise_interval a) of
        Inl e \<Rightarrow> Inl e
      | Inr val_noises \<Rightarrow> Inr (train_dataset, val_dataset, train_noises, val_noises)))))))"

text \<open>Lines 205 to 210: \<open>model.eval()\<close>, then the last \<open>torch.save\<close>.\<close>

definition final_save :: "args \<Rightarrow> 'p net \<Rightarrow> 'p world \<Rightarrow> 'p world" where
  "final_save a m w =
     torch_save (model_path a @ (if is_gray a then ''net_gray.pth'' else ''net_rgb.pth''))
       (m\<lparr>training := False\<rparr>) (emit [Eval_mode] w)"

definition train :: "'p env \<Rightarrow> args \<Rightarrow> 'p world \<Rightarrow> error option \<times> 'p world" where
  "train env a w =
     (case train_setup env a of
        Inl e \<Rightarrow> (Some e, w)
      | Inr (train_dataset, val_dataset, train_noises, val_noises) \<Rightarrow>
          (case epoch_loop env a train_dataset val_dataset train_noises val_noises
                  [0 ..< nat (epoches a)]
                  (\<lparr>params = init_params env (is_gray a), training = True\<rparr>, w) of
             (Some e, m, w') \<Rightarrow> (Some e, w')
           | (None, m, w') \<Rightarrow> (None, final_save a m w')))"

section \<open>Inference\<close>

text \<open>\<open>os.path.join\<close> of two components on POSIX.\<close>

definition path_join :: "string \<Rightarrow> string \<Rightarrow> string" where
  "path_join d n =
     (if take 1 n = ''/'' then n
      else if d = [] \<or> take 1 (rev d) = ''/'' then d @ n
      else d @ ''/'' @ n)"

text \<open>
  \<open>image.shape[1]\<close> and \<open>image.shape[2]\<close> of a \<open>C * W * H\<close> array. A decoded image has
  at least one channel, one column and one row; the nested list has no other shape to
  read the sizes from.
\<close>

definition shape1 :: "image \<Rightarrow> nat" where
  "shape1 img = (case img of [] \<Rightarrow> 0 | ch # _ \<Rightarrow> length ch)"

definition shape2 :: "image \<Rightarrow> nat" where
  "shape2 img =
     (case img of [] \<Rightarrow> 0 | ch # _ \<Rightarrow> (case ch of [] \<Rightarrow> 0 | col # _ \<Rightarrow> length col))"

text \<open>
  Line 238 appends to every channel a copy of its last column (axis 1), line 241 appends
  to every column a copy of its last entry (axis 2); lines 267 and 269 cut the last
  index of axis 2 and of axis 3 of the predicted batch.
\<close>

definition expand_W :: "image \<Rightarrow> image" where
  "expand_W img = map (\<lambda>ch. ch @ [last ch]) img"

definition expand_H :: "image \<Rightarrow> image" where
  "expand_H img = map (map (\<lambda>col. col @ [last col])) img"

definition unexpand_W :: "batch \<Rightarrow> batch" where
  "unexpand_W pred = map (map butlast) pred"

definition unexpand_H :: "batch \<Rightarrow> batch" where
  "unexpand_H pred = map (map (map butlast)) pred"

text \<open>Lines 233 to 241: the two flags and the image made even.\<close>

definition expand_odd :: "image \<Rightarrow> bool \<times> bool \<times> image" where
  "expand_odd img =
     (let expend_W = (shape1 img mod 2 \<noteq> 0);
          img1 = (if expend_W then expand_W img else img);
          expend_H = (shape2 img1 mod 2 \<noteq> 0);
          img2 = (if expend_H then expand_H img1 else img1)
      in (expend_W, expend_H, img2))"

text \<open>
  Lines 233 to 269 for one decoded image: the network input (noisy when \<open>add_noise\<close> is
  set) and the prediction after the padding is cut off again.
\<close>

definition denoise :: "'p env \<Rightarrow> args \<Rightarrow> 'p \<Rightarrow> image \<Rightarrow> batch \<times> batch" where
  "denoise env a p img =
     (case expand_odd img of
        (expend_W, expend_H, img2) \<Rightarrow>
          let inp = (if add_noise a then add_batch_noise env [img2] (noise_sigma a) else [img2]);
              image_pred = forward env p inp [noise_sigma a];
              pred1 = (if expend_W then unexpand_W image_pred else image_pred);
              pred2 = (if expend_H then unexpand_H pred1 else pred1)
          in (inp, pred2))"

text \<open>
  The body of the loop over the test files (lines 226 to 274). The forward pass runs
  inside \<open>torch.no_grad()\<close>, which restores the gradient mode on exit.
\<close>

definition test_image ::
  "'p env \<Rightarrow> args \<Rightarrow> 'p net \<Rightarrow> string \<Rightarrow> 'p world \<Rightarrow> error option \<times> 'p world" where
  "test_image env a m image_name w =
     (let image_path = path_join (test_path a) image_name
      in case decode env image_path False of
           None \<Rightarrow> (Some (Exception (''File '' @ test_path a @ '' not found or error'')), w)
         | Some _ \<Rightarrow>
             (case read_image env image_path True of
                Inl e \<Rightarrow> (Some e, w)
              | Inr img \<Rightarrow>
                  (case denoise env a (params m) img of
                     (inp, image_pred) \<Rightarrow>
                       let w1 = emit [Test_forward image_name (noise_sigma a) (training m)
                                        (grad_enabled (w\<lparr>grad_enabled := False\<rparr>))] w;
                           w2 = emit [Imwrite (''./outputs/'' @ image_name @ ''.png'') image_pred] w1;
                           w3 = (if add_noise a then emit [Imwrite ''noisy.png'' inp] w2 else w2)
                       in (None, w3))))"

fun test_loop ::
  "'p env \<Rightarrow> args \<Rightarrow> 'p net \<Rightarrow> string list \<Rightarrow> 'p world \<Rightarrow> error option \<times> 'p world" where
  "test_loop env a m [] w = (None, w)"
| "test_loop env a m (image_name # rest) w =
     (case test_image env a m image_name w of
        (Some e, w') \<Rightarrow> (Some e, w')
      | (None, w') \<Rightarrow> test_loop env a m rest w')"

text \<open>
  Lines 212 to 224. The local \<open>is_gray\<close> is the constant \<open>True\<close>; \<open>args.is_gray\<close> is
  not read.
\<close>

definition test :: "'p env \<Rightarrow> args \<Rightarrow> 'p world \<Rightarrow> error option \<times> 'p world" where
  "test env a w =
     (let gray = True;
          ckpt = model_path a @ (if gray then ''net_gray.pth'' else ''net_rgb.pth'');
          w1 = emit [Load ckpt] w
      in case store w1 ckpt of
           None \<Rightarrow> (Some OSError, w1)
         | Some state_dict \<Rightarrow>
             (case listdir env (test_path a) of
                None \<Rightarrow> (Some OSError, emit [Eval_mode] w1)
              | Some images \<Rightarrow>
                  test_loop env a \<lparr>params = state_dict, training = False\<rparr> images
                    (emit [Eval_mode] w1)))"

section \<open>The entry point\<close>

text \<open>Lines 302 to 320.\<close>

definition main :: "'p env \<Rightarrow> args \<Rightarrow> 'p world \<Rightarrow> error option \<times> 'p world" where
  "main env a w =
     (if \<not> (is_train a \<or> is_test a) then (Some AssertionError, w)
      else
        let a' = normalize_args a
        in case (if is_train a' then train env a' w else (None, w)) of
             (Some e, w') \<Rightarrow> (Some e, w')
           | (None, w') \<Rightarrow> if is_test a' then test env a' w' else (None, w'))"

section \<open>A small concrete run\<close>

text \<open>
  One instance of the external parts, for evaluating the script on concrete command
  lines: every directory holds the files listed, every file decodes to the same
  \<open>1 * 3 * 3\<close> image (\<open>tiny_image\<close> is a \<open>1 * 1 * 1\<close> one), an image at least as large
  as the patch size is one patch and a smaller one gives none, the loader yields the
  whole data set as one batch, the parameters count the optimizer steps, and the network
  and the noise return their input.
\<close>

definition demo_image :: image where
  "demo_image = [[[0, 1 / 2, 1], [1 / 4, 1 / 2, 3 / 4], [1, 0, 1]]]"

definition tiny_image :: image where
  "tiny_image = [[[0]]]"

definition demo_env :: "nat env" where
  "demo_env =
     \<lparr> walk_files = (\<lambda>d. Some [''a.png'']),
       listdir = (\<lambda>d. Some [''a.png'', ''b.jpg'']),
       decode = (\<lambda>p g. Some demo_image),
       image_to_patches =
         (\<lambda>img n. if 0 < n \<and> n \<le> int (shape1 img) \<and> n \<le> int (shape2 img) then [img] else []),
       data_loader = (\<lambda>ds n shuffle e. [ds]),
       init_params = (\<lambda>g. 0),
       opt_step = (\<lambda>lr p b s. Suc p),
       forward = (\<lambda>p b s. b),
       add_batch_noise = (\<lambda>b s. b) \<rparr>"

definition empty_world :: "nat world" where
  "empty_world = \<lparr> store = (\<lambda>path. None), grad_enabled = True, trace = [] \<rparr>"

definition trained_world :: "nat world" where
  "trained_world = empty_world\<lparr>store := [''./models/net_gray.pth'' \<mapsto> 30]\<rparr>"

text \<open>Command lines for the concrete runs: \<open>--is_train --is_gray --patch_size 3\<close> with
  5 epochs, and with 2 epochs and \<open>--val_epoch 2\<close>; \<open>--is_test\<close> on a directory;
  \<open>--is_train --is_test --patch_size 3\<close> with 2 epochs and no \<open>--is_gray\<close>;
  \<open>--add_noise\<close>.\<close>

definition train5_args :: args where
  "train5_args = default_args\<lparr>is_train := True, is_gray := True, patch_size := 3, epoches := 5\<rparr>"

definition train2_args :: args where
  "train2_args =
     default_args\<lparr>is_train := True, is_gray := True, patch_size := 3, epoches := 2,
                  val_epoch := 2\<rparr>"

definition test_args :: args where
  "test_args = default_args\<lparr>is_test := True, test_path := ''./test_data''\<rparr>"

definition colour_args :: args where
  "colour_args =
     default_args\<lparr>is_train := True, is_test := True, patch_size := 3, epoches := 2,
                  test_path := ''./test_data''\<rparr>"

definition noisy_args :: args where
  "noisy_args = default_args\<lparr>add_noise := True\<rparr>"

section \<open>Reading a trace\<close>

text \<open>The paths of the checkpoint writes, the checkpoint reads and the image writes of a
  trace, in order, and its validation passes.\<close>

fun saved_paths :: "'p event list \<Rightarrow> string list" where
  "saved_paths [] = []"
| "saved_paths (Save path p # es) = path # saved_paths es"
| "saved_paths (_ # es) = saved_paths es"

fun loaded_paths :: "'p event list \<Rightarrow> string list" where
  "loaded_paths [] = []"
| "loaded_paths (Load path # es) = path # loaded_paths es"
| "loaded_paths (_ # es) = loaded_paths es"

fun written_paths :: "'p event list \<Rightarrow> string list" where
  "written_paths [] = []"
| "written_paths (Imwrite path b # es) = path # written_paths es"
| "written_paths (_ # es) = written_paths es"

fun val_events :: "'p event list \<Rightarrow> 'p event list" where
  "val_events [] = []"
| "val_events (Val_forward e b l s t g # es) = Val_forward e b l s t g # val_events es"
| "val_events (_ # es) = val_events es"

text \<open>What one test file writes: its output, then \<open>noisy.png\<close> when noise was added.\<close>

definition output_paths :: "args \<Rightarrow> string \<Rightarrow> string list" where
  "output_paths a image_name =
     (''./outputs/'' @ image_name @ ''.png'') # (if add_noise a then [''noisy.png''] else [])"

text \<open>
  The events \<open>train\<close> can emit for the arguments \<open>a\<close> when the gradient mode is \<open>g\<close> at
  its start, and the events \<open>test\<close> can emit after its \<open>torch.load\<close>.
\<close>

fun train_event :: "args \<Rightarrow> bool \<Rightarrow> 'p event \<Rightarrow> bool" where
  "train_event a g Train_mode = True"
| "train_event a g Eval_mode = True"
| "train_event a g (Train_step e b l s) = (s = real_of_int l / 255)"
| "train_event a g (Val_forward e b l s t gr) =
     (s = real_of_int l / 255 \<and> t \<and> gr = g \<and> (e + 1) mod 5 = 0)"
| "train_event a g (Save path p) =
     (path = model_path a @ (if is_gray a then ''net_gray.pth'' else ''net_rgb.pth''))"
| "train_event a g (Load path) = False"
| "train_event a g (Test_forward n s t gr) = False"
| "train_event a g (Imwrite path b) = False"

fun test_event :: "args \<Rightarrow> 'p event \<Rightarrow> bool" where
  "test_event a Eval_mode = True"
| "test_event a (Test_forward n s t g) = (s = noise_sigma a \<and> \<not> t \<and> \<not> g)"
| "test_event a (Imwrite path b) = True"
| "test_event a _ = False"

text \<open>
  A sigma \<open>s\<close> is the scaled form of the command-line value \<open>x\<close>: it is \<open>x / 255\<close>, hence
  in \<open>[0, 1]\<close> when \<open>x\<close> is in \<open>[0, 255]\<close>. An event carries a scaled sigma when its sigma
  is the scaled form of its level (training, validation) or of \<open>--noise_sigma\<close> (test).
\<close>

definition sigma_scaled :: "real \<Rightarrow> real \<Rightarrow> bool" where
  "sigma_scaled x s = (s = x / 255 \<and> (0 \<le> x \<and> x \<le> 255 \<longrightarrow> 0 \<le> s \<and> s \<le> 1))"

fun sigma_event :: "args \<Rightarrow> 'p event \<Rightarrow> bool" where
  "sigma_event a (Train_step e b l s) = sigma_scaled (real_of_int l) s"
| "sigma_event a (Val_forward e b l s t g) = sigma_scaled (real_of_int l) s"
| "sigma_event a (Test_forward n s t g) = sigma_scaled (noise_sigma a) s"
| "sigma_event a _ = True"

text \<open>An image of \<open>c\<close> channels, width \<open>wd\<close> and height \<open>ht\<close>; a batch of \<open>n\<close> such images.\<close>

definition has_shape :: "nat \<Rightarrow> nat \<Rightarrow> nat \<Rightarrow> image \<Rightarrow> bool" where
  "has_shape c wd ht img =
     (length img = c \<and> list_all (\<lambda>ch. length ch = wd \<and> list_all (\<lambda>col. length col = ht) ch) img)"

definition batch_shape :: "nat \<Rightarrow> nat \<Rightarrow> nat \<Rightarrow> nat \<Rightarrow> batch \<Rightarrow> bool" where
  "batch_shape n c wd ht b = (length b = n \<and> list_all (has_shape c wd ht) b)"

section \<open>Properties\<close>

subsection \<open>Unfolding \<open>range\<close>\<close>

lemma range_up_unfold:
  "0 < step \<Longrightarrow> i < stop \<Longrightarrow> range_up i stop step = i # range_up (i + step) stop step"
  by (subst range_up.simps) simp

lemma range_up_done: "stop \<le> i \<Longrightarrow> range_up i stop step = []"
  by (subst range_up.simps) simp

subsection \<open>How the trace grows\<close>

lemma emit_nil [simp]: "emit [] w = w"
  by (simp add: emit_def)

lemma emit_emit [simp]: "emit ys (emit xs w) = emit (xs @ ys) w"
  by (simp add: emit_def)

lemma emit_fields [simp]:
  "trace (emit es w) = trace w @ es"
  "store (emit es w) = store w"
  "grad_enabled (emit es w) = grad_enabled w"
  by (simp_all add: emit_def)

lemma torch_save_fields [simp]:
  "trace (torch_save path m w) = trace w @ [Save path (params m)]"
  "store (torch_save path m w) = (store w)(path \<mapsto> params m)"
  "grad_enabled (torch_save path m w) = grad_enabled w"
  by (simp_all add: torch_save_def)

lemma train_noise_fold:
  "fold (train_noise_step env a e bi b) ns (m, w, k) =
     (m\<lparr>params := fold (\<lambda>l p. opt_step env (learning_rate a) p b (level_sigma l)) ns (params m)\<rparr>,
      emit (map (\<lambda>l. Train_step e bi l (level_sigma l)) ns) w,
      k + length ns)"
  by (induction ns arbitrary: m w k) (simp_all add: train_noise_step_def)

lemma train_batches_fold:
  "\<exists>p'. fold (\<lambda>(bi, b). fold (train_noise_step env a e bi b) ns) (enumerate n bs) (m, w, k) =
     (m\<lparr>params := p'\<rparr>,
      emit (concat (map (\<lambda>(bi, b). map (\<lambda>l. Train_step e bi l (level_sigma l)) ns)
                     (enumerate n bs))) w,
      k + length bs * length ns)"
proof (induction bs arbitrary: n m w k)
  case Nil
  show ?case by (intro exI [of _ "params m"]) simp
next
  case (Cons b bs)
  show ?case
    using Cons.IH [of "Suc n" "m\<lparr>params := fold (\<lambda>l p. opt_step env (learning_rate a) p b (level_sigma l)) ns (params m)\<rparr>"
        "emit (map (\<lambda>l. Train_step e n l (level_sigma l)) ns) w" "k + length ns"]
    by (auto simp: train_noise_fold add.assoc)
qed

lemma val_noise_fold:
  "fold (val_noise_step m e bi) ns (w, k) =
     (emit (map (\<lambda>l. Val_forward e bi l (level_sigma l) (training m) (grad_enabled w)) ns) w,
      k + length ns)"
  by (induction ns arbitrary: w k) (simp_all add: val_noise_step_def)

lemma val_batches_fold:
  "fold (\<lambda>(bi, b). fold (val_noise_step m e bi) ns) (enumerate n bs) (w, k) =
     (emit (concat (map (\<lambda>(bi, b). map (\<lambda>l. Val_forward e bi l (level_sigma l) (training m)
                                             (grad_enabled w)) ns)
                     (enumerate n bs))) w,
      k + length bs * length ns)"
  by (induction bs arbitrary: n w k) (simp_all add: val_noise_fold add.assoc)


lemma run_epoch_trace:
  assumes "run_epoch env a tds vds tns vns e (m0, w0) = (r, m, w)"
  shows "grad_enabled w = grad_enabled w0 \<and>
         (\<exists>es. trace w = trace w0 @ es \<and> list_all (train_event a (grad_enabled w0)) es) \<and>
         (r = None \<or> r = Some ZeroDivisionError)"
proof -
  obtain p' where tb:
    "train_batches env a e tns (data_loader env tds (batch_size a) True e)
       (m0\<lparr>training := True\<rparr>, emit [Train_mode] w0, 0) =
     (m0\<lparr>training := True, params := p'\<rparr>,
      emit (concat (map (\<lambda>(bi, b). map (\<lambda>l. Train_step e bi l (level_sigma l)) tns)
                     (enumerate 0 (data_loader env tds (batch_size a) True e))))
        (emit [Train_mode] w0),
      0 + length (data_loader env tds (batch_size a) True e) * length tns)"
    unfolding train_batches_def
    using train_batches_fold [of env a e tns 0 "data_loader env tds (batch_size a) True e"
        "m0\<lparr>training := True\<rparr>" "emit [Train_mode] w0" 0]
    by auto
  show ?thesis
    using assms
    unfolding run_epoch_def
    by (auto simp: tb val_batches_def val_batches_fold is_val_epoch_def list_all_iff
        level_sigma_def split: if_splits)
qed

lemma epoch_loop_trace:
  "epoch_loop env a tds vds tns vns es (m0, w0) = (r, m, w) \<Longrightarrow>
   grad_enabled w = grad_enabled w0 \<and>
   (\<exists>evs. trace w = trace w0 @ evs \<and> list_all (train_event a (grad_enabled w0)) evs) \<and>
   (r = None \<or> r = Some ZeroDivisionError)"
proof (induction es arbitrary: m0 w0)
  case Nil
  then show ?case by simp
next
  case (Cons e es)
  obtain r1 m1 w1 where step: "run_epoch env a tds vds tns vns e (m0, w0) = (r1, m1, w1)"
    by (cases "run_epoch env a tds vds tns vns e (m0, w0)") auto
  note first = run_epoch_trace [OF step]
  show ?case
  proof (cases r1)
    case None
    with Cons.prems step have rest: "epoch_loop env a tds vds tns vns es (m1, w1) = (r, m, w)"
      by simp
    from Cons.IH [OF rest] first show ?thesis by auto
  next
    case (Some err)
    with Cons.prems step have "r = r1" "w = w1" by simp_all
    with first show ?thesis by auto
  qed
qed


lemma saved_paths_append [simp]: "saved_paths (xs @ ys) = saved_paths xs @ saved_paths ys"
  by (induction xs rule: saved_paths.induct) simp_all

lemma loaded_paths_append [simp]: "loaded_paths (xs @ ys) = loaded_paths xs @ loaded_paths ys"
  by (induction xs rule: loaded_paths.induct) simp_all

lemma written_paths_append [simp]:
  "written_paths (xs @ ys) = written_paths xs @ written_paths ys"
  by (induction xs rule: written_paths.induct) simp_all

lemma read_all_error:
  "read_all env d g fns = Inl e \<Longrightarrow> e = AttributeError \<or> e = Cv2Error"
  by (induction fns arbitrary: e)
     (auto simp: read_image_def split: option.splits sum.splits if_splits)

lemma train_setup_error: "train_setup env a = Inl e \<Longrightarrow> e \<noteq> AssertionError"
  by (auto simp: train_setup_def load_images_def images_to_patches_def np_vstack_def
      noise_list_def py_range_def Let_def
      dest: read_all_error split: sum.splits option.splits if_splits prod.splits)

lemma final_save_fields [simp]:
  "grad_enabled (final_save a m w) = grad_enabled w"
  "trace (final_save a m w) =
     trace w @ [Eval_mode,
       Save (model_path a @ (if is_gray a then ''net_gray.pth'' else ''net_rgb.pth'')) (params m)]"
  "store (final_save a m w) =
     (store w)(model_path a @ (if is_gray a then ''net_gray.pth'' else ''net_rgb.pth'')
                 \<mapsto> params m)"
  by (simp_all add: final_save_def)

lemma train_trace:
  assumes "train env a w = (r, w')"
  shows "grad_enabled w' = grad_enabled w \<and>
         (\<exists>evs. trace w' = trace w @ evs \<and> list_all (train_event a (grad_enabled w)) evs) \<and>
         r \<noteq> Some AssertionError"
proof (cases "train_setup env a")
  case (Inl e)
  with assms train_setup_error [OF Inl] show ?thesis
    by (auto simp: train_def)
next
  case (Inr cfg)
  obtain tds vds tns vns where cfg: "cfg = (tds, vds, tns, vns)"
    by (cases cfg) auto
  obtain r1 m1 w1 where loop:
    "epoch_loop env a tds vds tns vns [0 ..< nat (epoches a)]
       (\<lparr>params = init_params env (is_gray a), training = True\<rparr>, w) = (r1, m1, w1)"
    using prod_cases3 by blast
  note inv = epoch_loop_trace [OF loop]
  show ?thesis
  proof (cases r1)
    case None
    with assms Inr cfg loop have "r = None" "w' = final_save a m1 w1"
      by (simp_all add: train_def)
    with inv show ?thesis by auto
  next
    case (Some err)
    with assms Inr cfg loop have "r = r1" "w' = w1"
      by (simp_all add: train_def)
    with inv Some show ?thesis by auto
  qed
qed

lemma test_image_trace:
  assumes "test_image env a m n w = (r, w')" and "\<not> training m"
  shows "grad_enabled w' = grad_enabled w \<and> store w' = store w \<and>
         (\<exists>evs. trace w' = trace w @ evs \<and> list_all (test_event a) evs \<and>
                loaded_paths evs = [] \<and>
                (r = None \<longrightarrow> written_paths evs = output_paths a n)) \<and>
         r \<noteq> Some AssertionError"
  using assms
  by (auto simp: test_image_def read_image_def Let_def output_paths_def
      split: option.splits sum.splits prod.splits if_splits)

lemma test_loop_trace:
  "test_loop env a m names w = (r, w') \<Longrightarrow> \<not> training m \<Longrightarrow>
   grad_enabled w' = grad_enabled w \<and> store w' = store w \<and>
   (\<exists>evs. trace w' = trace w @ evs \<and> list_all (test_event a) evs \<and>
          loaded_paths evs = [] \<and>
          (r = None \<longrightarrow> written_paths evs = concat (map (output_paths a) names))) \<and>
   r \<noteq> Some AssertionError"
proof (induction names arbitrary: w)
  case Nil
  then show ?case by simp
next
  case (Cons n names)
  obtain r1 w1 where one: "test_image env a m n w = (r1, w1)"
    by (cases "test_image env a m n w") auto
  note first = test_image_trace [OF one Cons.prems(2)]
  show ?case
  proof (cases r1)
    case None
    with Cons.prems(1) one have rest: "test_loop env a m names w1 = (r, w')"
      by simp
    from Cons.IH [OF rest Cons.prems(2)] first None show ?thesis by auto
  next
    case (Some err)
    with Cons.prems(1) one have "r = r1" "w' = w1" by simp_all
    with first Some show ?thesis by auto
  qed
qed

lemma test_trace:
  assumes "test env a w = (r, w')"
  shows "grad_enabled w' = grad_enabled w \<and> store w' = store w \<and>
         (\<exists>evs. trace w' = trace w @ Load (model_path a @ ''net_gray.pth'') # evs \<and>
                list_all (test_event a) evs \<and> loaded_paths evs = [] \<and>
                (r = None \<longrightarrow>
                   (\<exists>names. listdir env (test_path a) = Some names \<and>
                            written_paths evs = concat (map (output_paths a) names)))) \<and>
         r \<noteq> Some AssertionError"
proof (cases "store w (model_path a @ ''net_gray.pth'')")
  case None
  with assms show ?thesis by (auto simp: test_def Let_def)
next
  case (Some sd)
  show ?thesis
  proof (cases "listdir env (test_path a)")
    case None
    with assms Some show ?thesis by (auto simp: test_def Let_def)
  next
    case names: (Some names)
    from assms Some names have run:
      "test_loop env a \<lparr>params = sd, training = False\<rparr> names
         (emit [Eval_mode] (emit [Load (model_path a @ ''net_gray.pth'')] w)) = (r, w')"
      by (simp add: test_def Let_def)
    from test_loop_trace [OF run] names show ?thesis by auto
  qed
qed

lemma collect_patches_fold:
  "fold (\<lambda>img patches_list.
           let patches = image_to_patches env img psize
           in if length patches \<noteq> 0 then patches_list @ [patches] else patches_list)
        images acc =
   acc @ filter (\<lambda>ps. ps \<noteq> []) (map (\<lambda>img. image_to_patches env img psize) images)"
  by (induction images arbitrary: acc) (simp_all add: Let_def)

lemma concat_filter_nonempty: "concat (filter (\<lambda>ps. ps \<noteq> []) xss) = concat xss"
  by (induction xss) simp_all

lemma main_trace:
  assumes "main env a w = (r, w')"
  shows "(\<exists>evs. trace w' = trace w @ evs \<and>
            (\<forall>ev \<in> set evs. train_event (normalize_args a) (grad_enabled w) ev \<or>
                            test_event (normalize_args a) ev \<or>
                            ev = Load (model_path a @ ''net_gray.pth''))) \<and>
         (r = Some AssertionError \<longleftrightarrow> \<not> (is_train a \<or> is_test a))"
proof (cases "is_train a \<or> is_test a")
  case False
  with assms show ?thesis by (auto simp: main_def)
next
  case True
  let ?a = "normalize_args a"
  have flags: "is_train ?a = is_train a" "is_test ?a = is_test a" "model_path ?a = model_path a"
    by (simp_all add: normalize_args_def)
  obtain r1 w1 where tr: "(if is_train a then train env ?a w else (None, w)) = (r1, w1)"
    by (cases "if is_train a then train env ?a w else (None, w)") auto
  have inv1: "\<exists>evs. trace w1 = trace w @ evs \<and>
                list_all (train_event ?a (grad_enabled w)) evs"
    and r1: "r1 \<noteq> Some AssertionError"
  proof -
    show "\<exists>evs. trace w1 = trace w @ evs \<and> list_all (train_event ?a (grad_enabled w)) evs"
    proof (cases "is_train a")
      case True
      with tr have "train env ?a w = (r1, w1)" by simp
      from train_trace [OF this] show ?thesis by blast
    next
      case False
      with tr show ?thesis by auto
    qed
    show "r1 \<noteq> Some AssertionError"
    proof (cases "is_train a")
      case True
      with tr have "train env ?a w = (r1, w1)" by simp
      from train_trace [OF this] show ?thesis by blast
    next
      case False
      with tr show ?thesis by auto
    qed
  qed
  from inv1 obtain tevs where
    tevs: "trace w1 = trace w @ tevs" "list_all (train_event ?a (grad_enabled w)) tevs"
    by blast
  have stop: "r = r1 \<and> w' = w1 \<or> r1 = None \<and> is_test a \<and> test env ?a w1 = (r, w')"
    using assms True tr flags
    by (cases r1) (auto simp: main_def Let_def split: if_splits)
  then show ?thesis
  proof
    assume "r = r1 \<and> w' = w1"
    with tevs r1 True show ?thesis by (auto simp: list_all_iff)
  next
    assume "r1 = None \<and> is_test a \<and> test env ?a w1 = (r, w')"
    then have run: "test env ?a w1 = (r, w')" by simp
    from test_trace [OF run] obtain evs where
      evs: "trace w' = trace w1 @ Load (model_path ?a @ ''net_gray.pth'') # evs"
        "list_all (test_event ?a) evs" and r: "r \<noteq> Some AssertionError"
      by auto
    have "trace w' = trace w @ (tevs @ Load (model_path a @ ''net_gray.pth'') # evs)"
      using evs(1) tevs(1) flags by simp
    moreover have "\<forall>ev \<in> set (tevs @ Load (model_path a @ ''net_gray.pth'') # evs).
        train_event ?a (grad_enabled w) ev \<or> test_event ?a ev \<or>
        ev = Load (model_path a @ ''net_gray.pth'')"
      using evs(2) tevs(2) by (auto simp: list_all_iff)
    ultimately show ?thesis using r True by blast
  qed
qed

subsection \<open>Concrete runs\<close>

lemmas run_defs =
  demo_env_def demo_image_def default_args_def normalize_args_def bump_high_def
  train_setup_def load_images_def read_image_def images_to_patches_def collect_patches_def
  np_vstack_def noise_list_def py_range_def range_up_unfold range_up_done
  run_epoch_def train_batches_def train_noise_step_def val_batches_def val_noise_step_def
  is_val_epoch_def level_sigma_def emit_def torch_save_def final_save_def train_def
  shape1_def shape2_def empty_world_def trained_world_def
  test_def test_image_def denoise_def expand_odd_def expand_W_def expand_H_def
  unexpand_W_def unexpand_H_def path_join_def main_def Let_def

lemma train2_setup:
  "train_setup demo_env (normalize_args train2_args) =
     Inr ([demo_image], [demo_image], [0, 15, 30, 45, 60, 75], [0, 30, 60])"
  by (simp add: run_defs train2_args_def)

lemma upt_2: "[0 ..< nat 2] = [0, 1]"
  by (simp add: upt_rec)

lemma train2_loop:
  "epoch_loop demo_env (normalize_args train2_args) [demo_image] [demo_image]
     [0, 15, 30, 45, 60, 75] [0, 30, 60] [0, 1]
     (\<lparr>params = 0, training = True\<rparr>, empty_world) =
   (None, \<lparr>params = 12, training = True\<rparr>,
    \<lparr>store = (\<lambda>path. None), grad_enabled = True,
     trace = [Train_mode, Train_step 0 0 0 0, Train_step 0 0 15 (15 / 255),
       Train_step 0 0 30 (30 / 255), Train_step 0 0 45 (45 / 255),
       Train_step 0 0 60 (60 / 255), Train_step 0 0 75 (75 / 255),
       Train_mode, Train_step 1 0 0 0, Train_step 1 0 15 (15 / 255),
       Train_step 1 0 30 (30 / 255), Train_step 1 0 45 (45 / 255),
       Train_step 1 0 60 (60 / 255), Train_step 1 0 75 (75 / 255)]\<rparr>)"
  by (simp add: run_defs train2_args_def)


lemma saved_paths_train_events:
  "list_all (train_event a g) evs \<Longrightarrow>
   \<exists>k. saved_paths evs =
     replicate k (model_path a @ (if is_gray a then ''net_gray.pth'' else ''net_rgb.pth''))"
proof (induction evs)
  case Nil
  then show ?case by simp
next
  case (Cons ev evs)
  then obtain k where k: "saved_paths evs =
     replicate k (model_path a @ (if is_gray a then ''net_gray.pth'' else ''net_rgb.pth''))"
    by auto
  show ?case
  proof (cases ev)
    case (Save path p)
    with Cons.prems k have "saved_paths (ev # evs) =
      replicate (Suc k) (model_path a @ (if is_gray a then ''net_gray.pth'' else ''net_rgb.pth''))"
      by simp
    then show ?thesis by blast
  qed (use k in auto)
qed

subsection \<open>Shapes under padding and cropping\<close>

lemma has_shape_iff:
  "has_shape c wd ht img \<longleftrightarrow>
     length img = c \<and> (\<forall>ch \<in> set img. length ch = wd \<and> (\<forall>col \<in> set ch. length col = ht))"
  by (simp add: has_shape_def list_all_iff)

lemma batch_shape_iff:
  "batch_shape n c wd ht b \<longleftrightarrow> length b = n \<and> (\<forall>img \<in> set b. has_shape c wd ht img)"
  by (simp add: batch_shape_def list_all_iff)

lemma shape1_of: "has_shape c wd ht img \<Longrightarrow> 0 < c \<Longrightarrow> shape1 img = wd"
  by (cases img) (auto simp: has_shape_iff shape1_def)

lemma shape2_of: "has_shape c wd ht img \<Longrightarrow> 0 < c \<Longrightarrow> 0 < wd \<Longrightarrow> shape2 img = ht"
proof -
  assume h: "has_shape c wd ht img" and c: "0 < c" and w: "0 < wd"
  from h c obtain ch rest where img: "img = ch # rest"
    by (cases img) (auto simp: has_shape_iff)
  with h w obtain col cols where ch: "ch = col # cols"
    by (cases ch) (auto simp: has_shape_iff)
  from h img ch show ?thesis
    by (simp add: has_shape_iff shape2_def)
qed

lemma shape_degenerate:
  "has_shape c wd ht img \<Longrightarrow> c = 0 \<or> wd = 0 \<Longrightarrow> shape1 img = 0 \<and> shape2 img = 0"
  by (cases img) (auto simp: has_shape_iff shape1_def shape2_def split: list.splits)

lemma expand_W_shape:
  "has_shape c wd ht img \<Longrightarrow> 0 < wd \<Longrightarrow> has_shape c (Suc wd) ht (expand_W img)"
  by (fastforce simp: has_shape_iff expand_W_def)

lemma expand_H_shape: "has_shape c wd ht img \<Longrightarrow> has_shape c wd (Suc ht) (expand_H img)"
  by (auto simp: has_shape_iff expand_H_def)

lemma unexpand_W_shape:
  "batch_shape n c (Suc wd) ht b \<Longrightarrow> batch_shape n c wd ht (unexpand_W b)"
  by (auto simp: batch_shape_iff has_shape_iff unexpand_W_def dest: in_set_butlastD)

lemma unexpand_H_shape:
  "batch_shape n c wd (Suc ht) b \<Longrightarrow> batch_shape n c wd ht (unexpand_H b)"
  by (auto simp: batch_shape_iff has_shape_iff unexpand_H_def)

lemma unexpand_expand_W: "unexpand_W [expand_W img] = [img]"
  by (simp add: unexpand_W_def expand_W_def map_idI)

lemma unexpand_expand_H: "unexpand_H [expand_H img] = [img]"
  by (simp add: unexpand_H_def expand_H_def map_idI)

lemma denoise_shape:
  assumes shape: "has_shape c wd ht img"
    and fwd: "\<And>n c' w' h' b. batch_shape n c' w' h' b \<Longrightarrow>
                batch_shape n c' w' h' (forward env p b [noise_sigma a])"
    and noise: "\<And>n c' w' h' b. add_noise a \<Longrightarrow> batch_shape n c' w' h' b \<Longrightarrow>
                batch_shape n c' w' h' (add_batch_noise env b (noise_sigma a))"
  shows "batch_shape 1 c wd ht (snd (denoise env a p img))"
proof -
  define inp where "inp img2 = (if add_noise a then add_batch_noise env [img2] (noise_sigma a)
                                else [img2])" for img2
  have net: "batch_shape 1 c w' h' (forward env p (inp img2) [noise_sigma a])"
    if "has_shape c w' h' img2" for w' h' img2
  proof -
    from that have "batch_shape 1 c w' h' [img2]" by (simp add: batch_shape_iff)
    then have "batch_shape 1 c w' h' (inp img2)" by (simp add: inp_def noise)
    then show ?thesis by (rule fwd)
  qed
  show ?thesis
  proof (cases "c = 0 \<or> wd = 0")
    case True
    from shape_degenerate [OF shape True]
    have "expand_odd img = (False, False, img)" by (simp add: expand_odd_def)
    then have "snd (denoise env a p img) = forward env p (inp img) [noise_sigma a]"
      by (simp add: denoise_def inp_def Let_def)
    with net [OF shape] show ?thesis by simp
  next
    case False
    then have pos: "0 < c" "0 < wd" by simp_all
    define ew where "ew = (wd mod 2 \<noteq> 0)"
    define eh where "eh = (ht mod 2 \<noteq> 0)"
    define wd1 where "wd1 = (if ew then Suc wd else wd)"
    define ht1 where "ht1 = (if eh then Suc ht else ht)"
    define img1 where "img1 = (if ew then expand_W img else img)"
    define img2 where "img2 = (if eh then expand_H img1 else img1)"
    have s1: "has_shape c wd1 ht img1"
      using shape pos by (simp add: img1_def wd1_def expand_W_shape)
    have s2: "has_shape c wd1 ht1 img2"
      using s1 by (simp add: img2_def ht1_def expand_H_shape)
    have "0 < wd1" using pos by (simp add: wd1_def)
    with s1 pos have sh2: "shape2 img1 = ht" by (simp add: shape2_of)
    from shape pos have sh1: "shape1 img = wd" by (simp add: shape1_of)
    have eo: "expand_odd img = (ew, eh, img2)"
      using sh1 sh2 by (simp add: expand_odd_def Let_def ew_def eh_def img1_def img2_def)
    let ?pred = "forward env p (inp img2) [noise_sigma a]"
    let ?pred1 = "if ew then unexpand_W ?pred else ?pred"
    let ?pred2 = "if eh then unexpand_H ?pred1 else ?pred1"
    have out: "snd (denoise env a p img) = ?pred2"
      by (simp add: denoise_def eo inp_def Let_def)
    have p0: "batch_shape 1 c wd1 ht1 ?pred" by (rule net [OF s2])
    have p1: "batch_shape 1 c wd ht1 ?pred1"
      using p0 by (auto simp: wd1_def intro: unexpand_W_shape)
    have p2: "batch_shape 1 c wd ht ?pred2"
      using p1 by (auto simp: ht1_def intro: unexpand_H_shape)
    with out show ?thesis by simp
  qed
qed

subsection \<open>Sigmas and validation passes in a trace\<close>

lemma train_event_sigma: "train_event a' g ev \<Longrightarrow> sigma_event a ev"
  by (cases ev) (auto simp: sigma_scaled_def)

lemma test_event_sigma: "test_event (normalize_args a) ev \<Longrightarrow> sigma_event a ev"
  by (cases ev) (auto simp: sigma_scaled_def normalize_args_def)

lemma train_validation_events:
  "\<exists>evs. trace (snd (train env a w)) = trace w @ evs \<and>
     (\<forall>e b l s t g. Val_forward e b l s t g \<in> set evs \<longrightarrow>
        t \<and> g = grad_enabled w \<and> (e + 1) mod 5 = 0)"
proof -
  have "train env a w = (fst (train env a w), snd (train env a w))" by simp
  from train_trace [OF this] obtain evs where
    evs: "trace (snd (train env a w)) = trace w @ evs"
      "list_all (train_event a (grad_enabled w)) evs"
    by blast
  from evs(2) have "\<forall>e b l s t g. Val_forward e b l s t g \<in> set evs \<longrightarrow>
        t \<and> g = grad_enabled w \<and> (e + 1) mod 5 = 0"
    by (fastforce simp: list_all_iff)
  with evs(1) show ?thesis by blast
qed

text \<open>
  The paths in any run: every save of \<open>train\<close> goes to the file that \<open>args.is_gray\<close>
  selects, and \<open>test\<close> reads one checkpoint, selected by its local constant.
\<close>

lemma train_saves_test_loads:
  "(\<exists>k. saved_paths (trace (snd (train env a w))) =
          saved_paths (trace w) @
          replicate k (model_path a @ (if is_gray a then ''net_gray.pth'' else ''net_rgb.pth''))) \<and>
   loaded_paths (trace (snd (test env a w))) =
     loaded_paths (trace w) @ [model_path a @ ''net_gray.pth''] \<and>
   model_path a @ ''net_gray.pth'' \<noteq> model_path a @ ''net_rgb.pth''"
proof -
  have "train env a w = (fst (train env a w), snd (train env a w))" by simp
  from train_trace [OF this] obtain evs where
    evs: "trace (snd (train env a w)) = trace w @ evs"
      "list_all (train_event a (grad_enabled w)) evs"
    by blast
  from saved_paths_train_events [OF evs(2)] evs(1) have saves:
    "\<exists>k. saved_paths (trace (snd (train env a w))) =
          saved_paths (trace w) @
          replicate k (model_path a @ (if is_gray a then ''net_gray.pth'' else ''net_rgb.pth''))"
    by auto
  have "test env a w = (fst (test env a w), snd (test env a w))" by simp
  from test_trace [OF this] have loads:
    "loaded_paths (trace (snd (test env a w))) =
       loaded_paths (trace w) @ [model_path a @ ''net_gray.pth'']"
    by auto
  from saves loads show ?thesis by simp
qed

subsection \<open>The claims\<close>

text \<open>
  C1 (as amended). \<open>main\<close> adds 1 to the upper bound before \<open>train\<close> builds the list, so
  the bound itself is reached when it lies on the step grid: for the interval
  \<open>[0, 75, 15]\<close> the training noise levels are \<open>0, 15, 30, 45, 60, 75\<close>, in this order.
\<close>

theorem train_noises_default_interval:
  "train_noise_interval a = (0, 75, 15) \<Longrightarrow>
   train_noises_of a = Inr [0, 15, 30, 45, 60, 75]"
  by (simp add: train_noises_of_def normalize_args_def bump_high_def noise_list_def
      py_range_def range_up_unfold range_up_done)

theorem train_noises_default_interval_witness:
  "train_noise_interval default_args = (0, 75, 15) \<and>
   train_noises_of default_args = Inr [0, 15, 30, 45, 60, 75]"
proof -
  have iv: "train_noise_interval default_args = (0, 75, 15)"
    by (simp add: default_args_def)
  from train_noises_default_interval [OF iv] iv show ?thesis by simp
qed

text \<open>
  The claim as the specification words it, with the levels ending at 60, fails on the
  parser's default interval: 75 is enumerated too.
\<close>

theorem train_noises_not_up_to_60:
  "train_noises_of default_args = Inr [0, 15, 30, 45, 60, 75] \<and>
   set (projr (train_noises_of default_args)) \<noteq> {0, 15, 30, 45, 60}"
proof -
  have run: "train_noises_of default_args = Inr [0, 15, 30, 45, 60, 75]"
    by (simp add: default_args_def train_noises_of_def normalize_args_def bump_high_def
        noise_list_def py_range_def range_up_unfold range_up_done)
  have "(75::int) \<in> set [0, 15, 30, 45, 60, 75]" by simp
  moreover have "(75::int) \<notin> {0, 15, 30, 45, 60}" by simp
  ultimately have "set [0, 15, 30, 45, 60, 75] \<noteq> {0, 15, 30, 45, 60 :: int}" by metis
  with run show ?thesis by simp
qed

text \<open>
  C9. \<open>images_to_patches\<close> leaves out every image that gives no patch and stacks the
  patches of the others in image order; when every image gives no patch, and so also for
  an empty list of images, the stacking raises \<open>ValueError\<close> and no empty batch is
  returned.
\<close>

theorem images_to_patches_result:
  "images_to_patches env images psize =
     (if \<forall>img \<in> set images. image_to_patches env img psize = [] then Inl ValueError
      else Inr (concat (map (\<lambda>img. image_to_patches env img psize) images)))"
proof -
  have "collect_patches env psize images =
          filter (\<lambda>ps. ps \<noteq> []) (map (\<lambda>img. image_to_patches env img psize) images)"
    using collect_patches_fold [of env psize images "[]"]
    by (simp add: collect_patches_def)
  then show ?thesis
    by (auto simp: images_to_patches_def np_vstack_def concat_filter_nonempty
        filter_empty_conv)
qed

theorem images_to_patches_result_witness:
  "images_to_patches demo_env [] 3 = Inl ValueError \<and>
   images_to_patches demo_env [tiny_image, tiny_image] 3 = Inl ValueError \<and>
   images_to_patches demo_env [tiny_image, demo_image, tiny_image] 3 = Inr [demo_image]"
  using images_to_patches_result [of demo_env "[]" 3]
    images_to_patches_result [of demo_env "[tiny_image, tiny_image]" 3]
    images_to_patches_result [of demo_env "[tiny_image, demo_image, tiny_image]" 3]
  by (simp add: demo_env_def tiny_image_def demo_image_def shape1_def shape2_def)

text \<open>
  C8. With neither \<open>is_train\<close> nor \<open>is_test\<close> set, \<open>main\<close> stops with the assertion
  failure and has done nothing: the world, with its trace and its files, is unchanged.
  With one of the flags set the assertion passes: whatever \<open>main\<close> returns, it is not
  the assertion failure.
\<close>

theorem main_asserts_a_mode:
  "(\<not> is_train a \<and> \<not> is_test a \<longrightarrow> main env a w = (Some AssertionError, w)) \<and>
   (is_train a \<or> is_test a \<longrightarrow> fst (main env a w) \<noteq> Some AssertionError)"
proof -
  have "main env a w = (fst (main env a w), snd (main env a w))" by simp
  from main_trace [OF this] show ?thesis by (auto simp: main_def)
qed

theorem main_asserts_a_mode_witness:
  "\<not> is_train default_args \<and> \<not> is_test default_args \<and>
   main demo_env default_args empty_world = (Some AssertionError, empty_world) \<and>
   (is_train test_args \<or> is_test test_args) \<and>
   fst (main demo_env test_args trained_world) \<noteq> Some AssertionError"
  using main_asserts_a_mode [of default_args demo_env empty_world]
    main_asserts_a_mode [of test_args demo_env trained_world]
  by (simp add: default_args_def test_args_def)

text \<open>
  C10. Once the data and the noise lists are set up and the epoch loop has finished,
  with the network \<open>m\<close>, \<open>train\<close> returns normally and its last two actions are
  \<open>model.eval()\<close> and the save of the parameters of \<open>m\<close> to the checkpoint path of the
  gray or colour mode, which then holds them. Nothing here depends on the number of
  epochs: the run with 2 epochs below has no periodic save, and its only save is this
  one.
\<close>

theorem train_final_save:
  assumes "train_setup env a = Inr (tds, vds, tns, vns)"
    and "epoch_loop env a tds vds tns vns [0 ..< nat (epoches a)]
           (\<lparr>params = init_params env (is_gray a), training = True\<rparr>, w) = (None, m, w1)"
  shows "fst (train env a w) = None \<and>
         trace (snd (train env a w)) =
           trace w1 @ [Eval_mode,
             Save (model_path a @ (if is_gray a then ''net_gray.pth'' else ''net_rgb.pth''))
               (params m)] \<and>
         store (snd (train env a w))
           (model_path a @ (if is_gray a then ''net_gray.pth'' else ''net_rgb.pth'')) =
           Some (params m)"
  using assms by (simp add: train_def)

theorem train_final_save_witness:
  "train_setup demo_env (normalize_args train2_args) =
     Inr ([demo_image], [demo_image], [0, 15, 30, 45, 60, 75], [0, 30, 60]) \<and>
   fst (epoch_loop demo_env (normalize_args train2_args) [demo_image] [demo_image]
          [0, 15, 30, 45, 60, 75] [0, 30, 60] [0 ..< nat (epoches (normalize_args train2_args))]
          (\<lparr>params = init_params demo_env (is_gray (normalize_args train2_args)),
            training = True\<rparr>, empty_world)) = None \<and>
   fst (train demo_env (normalize_args train2_args) empty_world) = None \<and>
   saved_paths (trace (snd (train demo_env (normalize_args train2_args) empty_world))) =
     [''./models/net_gray.pth''] \<and>
   store (snd (train demo_env (normalize_args train2_args) empty_world))
     ''./models/net_gray.pth'' = Some 12"
proof -
  let ?a = "normalize_args train2_args"
  have a: "epoches ?a = 2" "init_params demo_env (is_gray ?a) = 0" "is_gray ?a"
    "model_path ?a = ''./models/''"
    by (simp_all add: train2_args_def normalize_args_def default_args_def demo_env_def)
  have loop: "epoch_loop demo_env ?a [demo_image] [demo_image]
          [0, 15, 30, 45, 60, 75] [0, 30, 60] [0 ..< nat (epoches ?a)]
          (\<lparr>params = init_params demo_env (is_gray ?a), training = True\<rparr>, empty_world) =
        (None, \<lparr>params = 12, training = True\<rparr>,
    \<lparr>store = (\<lambda>path. None), grad_enabled = True,
     trace = [Train_mode, Train_step 0 0 0 0, Train_step 0 0 15 (15 / 255),
       Train_step 0 0 30 (30 / 255), Train_step 0 0 45 (45 / 255),
       Train_step 0 0 60 (60 / 255), Train_step 0 0 75 (75 / 255),
       Train_mode, Train_step 1 0 0 0, Train_step 1 0 15 (15 / 255),
       Train_step 1 0 30 (30 / 255), Train_step 1 0 45 (45 / 255),
       Train_step 1 0 60 (60 / 255), Train_step 1 0 75 (75 / 255)]\<rparr>)"
    unfolding a upt_2 by (rule train2_loop)
  from train_final_save [OF train2_setup loop] train2_setup loop
  show ?thesis by (simp add: a)
qed

text \<open>
  C3. The run \<open>--is_train --is_test --patch_size 3 --epoches 2\<close> without \<open>--is_gray\<close>
  trains the colour variant and saves it to \<open>./models/net_rgb.pth\<close>, its only save;
  inference, in the same run, then asks for \<open>./models/net_gray.pth\<close>, which nothing has
  written, and the run ends in the error of the load. \<open>train\<close> selects the file by
  \<open>args.is_gray\<close> (lines 160 and 207); \<open>test\<close> selects it by a local \<open>is_gray\<close> that
  line 215 sets to \<open>True\<close>, so the flag does not reach inference.
\<close>

theorem colour_run_loads_gray_checkpoint:
  "\<not> is_gray colour_args \<and>
   saved_paths (trace (snd (main demo_env colour_args empty_world))) =
     [''./models/net_rgb.pth''] \<and>
   loaded_paths (trace (snd (main demo_env colour_args empty_world))) =
     [''./models/net_gray.pth''] \<and>
   fst (main demo_env colour_args empty_world) = Some OSError"
  by (simp add: run_defs colour_args_def upt_rec)

text \<open>
  C7. When \<open>test\<close> has gone through the files \<open>names\<close> of the test directory, the
  images it has written are, file by file and in order, \<open>./outputs/\<close> followed by the
  file name and \<open>.png\<close> (and after each of them \<open>noisy.png\<close> when noise was added). The
  file name keeps its own extension: \<open>a.png\<close> is written to \<open>./outputs/a.png.png\<close>.
\<close>

theorem test_output_paths:
  assumes "test env a w = (None, w')" and "listdir env (test_path a) = Some names"
  shows "written_paths (trace w') =
           written_paths (trace w) @ concat (map (output_paths a) names)"
  using test_trace [OF assms(1)] assms(2) by auto

theorem test_output_paths_witness:
  "fst (test demo_env (normalize_args test_args) trained_world) = None \<and>
   listdir demo_env (test_path (normalize_args test_args)) = Some [''a.png'', ''b.jpg''] \<and>
   written_paths (trace (snd (test demo_env (normalize_args test_args) trained_world))) =
     [''./outputs/a.png.png'', ''./outputs/b.jpg.png'']"
proof -
  let ?a = "normalize_args test_args"
  have ok: "fst (test demo_env ?a trained_world) = None"
    by (simp add: run_defs test_args_def)
  then have run: "test demo_env ?a trained_world = (None, snd (test demo_env ?a trained_world))"
    by (simp add: prod_eq_iff)
  have ls: "listdir demo_env (test_path ?a) = Some [''a.png'', ''b.jpg'']"
    by (simp add: demo_env_def)
  have w0: "written_paths (trace trained_world) = []"
    by (simp add: trained_world_def empty_world_def)
  have nn: "\<not> add_noise ?a"
    by (simp add: test_args_def normalize_args_def default_args_def)
  from test_output_paths [OF run ls] ok ls w0 nn show ?thesis
    by (simp add: output_paths_def)
qed

text \<open>
  C5. For an image of \<open>c\<close> channels, width \<open>wd\<close> and height \<open>ht\<close>, one of the two odd,
  the prediction that the inference driver keeps after padding, forward pass and
  cropping is a batch of one image of \<open>c\<close> channels, width \<open>wd\<close> and height \<open>ht\<close> again,
  provided the forward pass keeps the shape of its input batch (and so does the noise,
  when noise is added).
\<close>

theorem pad_crop_round_trip:
  assumes "has_shape c wd ht img" and "odd wd \<or> odd ht"
    and "\<forall>n c' w' h' b. batch_shape n c' w' h' b \<longrightarrow>
           batch_shape n c' w' h' (forward env p b [noise_sigma a])"
    and "add_noise a \<longrightarrow>
         (\<forall>n c' w' h' b. batch_shape n c' w' h' b \<longrightarrow>
            batch_shape n c' w' h' (add_batch_noise env b (noise_sigma a)))"
  shows "batch_shape 1 c wd ht (snd (denoise env a p img))"
  using assms(1) by (rule denoise_shape) (use assms(3,4) in blast)+

theorem pad_crop_round_trip_witness:
  "has_shape 1 3 3 demo_image \<and> odd (3::nat) \<and> add_noise noisy_args \<and>
   batch_shape 1 1 3 3 (snd (denoise demo_env noisy_args 0 demo_image)) \<and>
   snd (denoise demo_env noisy_args 0 demo_image) = [demo_image]"
proof -
  have shape: "has_shape 1 3 3 demo_image"
    by (simp add: has_shape_def demo_image_def)
  have parity: "odd (3::nat) \<or> odd (3::nat)" by simp
  have fwd: "\<forall>n c' w' h' b. batch_shape n c' w' h' b \<longrightarrow>
      batch_shape n c' w' h' (forward demo_env (0::nat) b [noise_sigma noisy_args])"
    by (simp add: demo_env_def)
  have flag: "add_noise noisy_args"
    by (simp add: noisy_args_def)
  have noise: "\<forall>n c' w' h' b. batch_shape n c' w' h' b \<longrightarrow>
      batch_shape n c' w' h' (add_batch_noise demo_env b (noise_sigma noisy_args))"
    by (simp add: demo_env_def)
  have out: "snd (denoise demo_env noisy_args 0 demo_image) = [demo_image]"
    by (simp add: run_defs noisy_args_def)
  from noise have noise': "add_noise noisy_args \<longrightarrow>
      (\<forall>n c' w' h' b. batch_shape n c' w' h' b \<longrightarrow>
         batch_shape n c' w' h' (add_batch_noise demo_env b (noise_sigma noisy_args)))"
    by blast
  from pad_crop_round_trip [OF shape parity fwd noise'] shape flag out
  show ?thesis by simp
qed

text \<open>
  C6. Every sigma that a run of \<open>main\<close> hands to the network is the command-line value
  divided by 255: the level divided by 255 in every training step and validation pass,
  \<open>--noise_sigma\<close> divided by 255 in every test pass; so it lies in \<open>[0, 1]\<close> whenever
  the value lies in \<open>[0, 255]\<close>.
\<close>

theorem sigma_normalised:
  "\<exists>evs. trace (snd (main env a w)) = trace w @ evs \<and> list_all (sigma_event a) evs"
proof -
  have "main env a w = (fst (main env a w), snd (main env a w))" by simp
  from main_trace [OF this] obtain evs where
    evs: "trace (snd (main env a w)) = trace w @ evs"
      "\<forall>ev \<in> set evs. train_event (normalize_args a) (grad_enabled w) ev \<or>
                      test_event (normalize_args a) ev \<or>
                      ev = Load (model_path a @ ''net_gray.pth'')"
    by blast
  have "sigma_event a ev" if "ev \<in> set evs" for ev
    using evs(2) that train_event_sigma test_event_sigma by fastforce
  then have "list_all (sigma_event a) evs" by (simp add: list_all_iff)
  with evs(1) show ?thesis by blast
qed

theorem sigma_normalised_witness:
  "0 \<le> noise_sigma test_args \<and> noise_sigma test_args \<le> 255 \<and>
   (\<exists>evs. trace (snd (main demo_env test_args trained_world)) = trace trained_world @ evs \<and>
          list_all (sigma_event test_args) evs \<and>
          Test_forward ''a.png'' (25 / 255) False False \<in> set evs) \<and>
   (\<exists>evs. trace (snd (main demo_env train2_args empty_world)) = trace empty_world @ evs \<and>
          list_all (sigma_event train2_args) evs \<and>
          Train_step 0 0 75 (75 / 255) \<in> set evs)"
proof -
  have range: "0 \<le> noise_sigma test_args \<and> noise_sigma test_args \<le> 255"
    by (simp add: test_args_def default_args_def)
  have t1: "Test_forward ''a.png'' (25 / 255) False False
              \<in> set (trace (snd (main demo_env test_args trained_world)))"
    by (simp add: run_defs test_args_def)
  have t0: "trace trained_world = []" "trace empty_world = ([] :: nat event list)"
    by (simp_all add: trained_world_def empty_world_def)
  have t2: "Train_step 0 0 75 (75 / 255)
              \<in> set (trace (snd (main demo_env train2_args empty_world)))"
    by (simp add: run_defs train2_args_def upt_rec)
  from sigma_normalised [of demo_env test_args trained_world]
    sigma_normalised [of demo_env train2_args empty_world] range t1 t2
  show ?thesis by (simp add: t0)
qed

text \<open>
  C2. The run \<open>--is_train --is_gray --patch_size 3 --epoches 5\<close> validates once, after the
  fifth epoch, at the levels 0, 30 and 60. In each of the three passes the network's
  \<open>training\<close> flag is set and gradients are tracked: \<open>model.train()\<close> was called at the
  start of the epoch and nothing between it and the validation loop calls
  \<open>model.eval()\<close> or enters \<open>torch.no_grad()\<close>. (\<open>train_validation_events\<close> above shows
  the same for every run.)
\<close>

theorem validation_in_training_mode:
  "val_events (trace (snd (main demo_env train5_args empty_world))) =
     [Val_forward 4 0 0 0 True True, Val_forward 4 0 30 (30 / 255) True True,
      Val_forward 4 0 60 (60 / 255) True True]"
  by (simp add: run_defs train5_args_def upt_rec)

text \<open>
  C4. The run with \<open>--val_epoch 2\<close> and 2 epochs ends normally and neither validates nor
  saves after its second epoch, a multiple of 2: its only save is the one after the
  loop. The period is the constant 5 of line 159, and \<open>args.val_epoch\<close> is not read.
\<close>

theorem validation_period_is_five:
  "val_epoch train2_args = 2 \<and> epoches train2_args = 2 \<and>
   fst (main demo_env train2_args empty_world) = None \<and>
   trace (snd (main demo_env train2_args empty_world)) =
     [Train_mode, Train_step 0 0 0 0, Train_step 0 0 15 (15 / 255),
      Train_step 0 0 30 (30 / 255), Train_step 0 0 45 (45 / 255),
      Train_step 0 0 60 (60 / 255), Train_step 0 0 75 (75 / 255),
      Train_mode, Train_step 1 0 0 0, Train_step 1 0 15 (15 / 255),
      Train_step 1 0 30 (30 / 255), Train_step 1 0 45 (45 / 255),
      Train_step 1 0 60 (60 / 255), Train_step 1 0 75 (75 / 255),
      Eval_mode, Save ''./models/net_gray.pth'' 12]"
  by (simp add: run_defs train2_args_def upt_rec)

end
